theory Spec2Isabelle
  imports Complex_Main
begin

section \<open>The Drawing Tools notebook of EarthSim\<close>

text \<open>
  The repository is one notebook, \<^verbatim>\<open>examples/user_guide/Drawing_Tools.ipynb\<close>. Its code
  cells configure drawing streams of the plotting toolkit and read their data back. This
  theory embeds the code cells: the helper \<^verbatim>\<open>bbox\<close>, the cells that create geometry wrappers
  and streams, and the cells that read the streams after editing.
\<close>

subsection \<open>Exceptions\<close>

text \<open>
  A Python exception is a value; a computation that may raise returns \<open>py_error + 'a\<close>,
  with \<open>Inl\<close> for the exception.
\<close>

datatype py_error =
    IndexError
  | ValueError
  | AttributeError
  | NameError
  | FileExistsError
  | FileNotFoundError
  | NotADirectoryError
  | IOError

definition and_then :: "py_error + 'a \<Rightarrow> ('a \<Rightarrow> py_error + 'b) \<Rightarrow> py_error + 'b" where
  "and_then r f = (case r of Inl e \<Rightarrow> Inl e | Inr v \<Rightarrow> f v)"

subsection \<open>Two-dimensional arrays and the helper \<^verbatim>\<open>bbox\<close>\<close>

text \<open>
  \<^verbatim>\<open>
  def bbox(poly):
      "Convert the polygon returned by the BoxEdit stream into a bounding box tuple"
      xs,ys = poly.array().T
      return (xs[0], ys[0], xs[2], ys[2])
  \<close>
  \<^verbatim>\<open>poly.array()\<close> is a two-dimensional array with one row per vertex and one column per
  dimension. An array is its column count and its list of rows, so that the shape
  \<open>(0, 2)\<close> of a polygon without vertices is still a value; every row of an array has
  as many entries as the array has columns. The only thing \<^verbatim>\<open>bbox\<close> does
  with its argument is to call \<^verbatim>\<open>.array()\<close>, so a polygon is represented by that array.
  Coordinates are copied and never computed with: their type is a parameter.
\<close>

record 'a ndarray =
  ncols :: nat
  rows :: "'a list list"

type_synonym 'a polygon = "'a ndarray"

text \<open>The attribute \<^verbatim>\<open>.T\<close>: the transposed array, of shape \<open>(ncols, nrows)\<close>.\<close>

definition T :: "'a ndarray \<Rightarrow> 'a ndarray" where
  "T a = \<lparr>ncols = length (rows a),
          rows = map (\<lambda>j. map (\<lambda>r. r ! j) (rows a)) [0..<ncols a]\<rparr>"

text \<open>
  \<^verbatim>\<open>xs,ys = a\<close> iterates over the first axis and needs exactly two rows; any other
  number raises ValueError.
\<close>

definition unpack2 :: "'a ndarray \<Rightarrow> py_error + ('a list \<times> 'a list)" where
  "unpack2 a = (case rows a of [xs, ys] \<Rightarrow> Inr (xs, ys) | _ \<Rightarrow> Inl ValueError)"

text \<open>\<^verbatim>\<open>xs[i]\<close> for an index that is not negative: IndexError out of range.\<close>

definition getitem :: "'b list \<Rightarrow> nat \<Rightarrow> py_error + 'b" where
  "getitem xs i = (if i < length xs then Inr (xs ! i) else Inl IndexError)"

definition bbox :: "'a polygon \<Rightarrow> py_error + ('a \<times> 'a \<times> 'a \<times> 'a)" where
  "bbox poly =
     and_then (unpack2 (T poly)) (\<lambda>(xs, ys).
     and_then (getitem xs 0) (\<lambda>x0.
     and_then (getitem ys 0) (\<lambda>y0.
     and_then (getitem xs 2) (\<lambda>x2.
     and_then (getitem ys 2) (\<lambda>y2.
       Inr (x0, y0, x2, y2))))))"

text \<open>The vertices of a polygon, and the vertex at a position when there is one.\<close>

definition vertices :: "'a polygon \<Rightarrow> ('a \<times> 'a) list" where
  "vertices p = map (\<lambda>r. (r ! 0, r ! 1)) (rows p)"

definition vertex :: "'a polygon \<Rightarrow> nat \<Rightarrow> py_error + 'a list" where
  "vertex p i = getitem (rows p) i"

text \<open>
  A rectangle polygon has four vertices with two coordinates each, listed along its
  perimeter: consecutive vertices share one coordinate, alternately the first and the
  second. The first edge is either vertical or horizontal.
\<close>

definition along_perimeter :: "'a \<Rightarrow> 'a \<Rightarrow> 'a \<Rightarrow> 'a \<Rightarrow> 'a \<Rightarrow> 'a \<Rightarrow> 'a \<Rightarrow> 'a \<Rightarrow> bool" where
  "along_perimeter a b c d e f g h =
     ((a = c \<and> d = f \<and> e = g \<and> h = b) \<or> (b = d \<and> c = e \<and> f = h \<and> g = a))"

text \<open>
  The coordinate array of a rectangle polygon holds the four vertices, either as they
  are (four rows) or as a closed ring, with the first vertex repeated as a fifth row. The
  closed ring is what \<^verbatim>\<open>.array()\<close> gives for the polygons that the BoxEdit stream returns on
  a \<^verbatim>\<open>gv.Polygons\<close> source, as in the notebook.
\<close>

definition is_rectangle :: "'a polygon \<Rightarrow> bool" where
  "is_rectangle p =
     (ncols p = 2 \<and>
      (case rows p of
         [[a, b], [c, d], [e, f], [g, h]] \<Rightarrow> along_perimeter a b c d e f g h
       | [[a, b], [c, d], [e, f], [g, h], [i, j]] \<Rightarrow>
           along_perimeter a b c d e f g h \<and> i = a \<and> j = b
       | _ \<Rightarrow> False))"

text \<open>The four corners of the box that a tuple \<open>(x0, y0, x1, y1)\<close> spans.\<close>

definition corners :: "'a \<times> 'a \<times> 'a \<times> 'a \<Rightarrow> ('a \<times> 'a) list" where
  "corners t = (case t of (x0, y0, x1, y1) \<Rightarrow> [(x0, y0), (x0, y1), (x1, y1), (x1, y0)])"

definition inside :: "('a::linorder) \<times> 'a \<times> 'a \<times> 'a \<Rightarrow> 'a \<times> 'a \<Rightarrow> bool" where
  "inside t v = (case t of (x0, y0, x1, y1) \<Rightarrow>
     min x0 x1 \<le> fst v \<and> fst v \<le> max x0 x1 \<and> min y0 y1 \<le> snd v \<and> snd v \<le> max y0 y1)"

text \<open>
  Geometries of the notebook as coordinate arrays. \<open>sample_ring\<close> is the rectangle of
  \<^verbatim>\<open>sample_box = hv.Bounds((-90.99, 32.25, -90.85, 32.37))\<close> as a closed ring of five rows,
  the form in which the BoxEdit stream returns its polygons; \<open>sample_rect\<close> is the same
  rectangle as its four corners only; \<open>sample_line\<close> is the two-vertex line
  \<^verbatim>\<open>[(0, 52), (-74, 43)]\<close> of the freehand cell.
\<close>

definition sample_ring :: "real polygon" where
  "sample_ring =
     \<lparr>ncols = 2,
      rows = [[-90.99, 32.25], [-90.99, 32.37], [-90.85, 32.37], [-90.85, 32.25],
              [-90.99, 32.25]]\<rparr>"

definition sample_rect :: "real polygon" where
  "sample_rect =
     \<lparr>ncols = 2,
      rows = [[-90.99, 32.25], [-90.99, 32.37], [-90.85, 32.37], [-90.85, 32.25]]\<rparr>"

definition sample_line :: "real polygon" where
  "sample_line = \<lparr>ncols = 2, rows = [[0, 52], [-74, 43]]\<rparr>"

text \<open>A quadrilateral that shares its first and third vertex with \<open>sample_rect\<close>.\<close>

definition sample_quad :: "real polygon" where
  "sample_quad =
     \<lparr>ncols = 2,
      rows = [[-90.99, 32.25], [-91, 33], [-90.85, 32.37], [-90, 32]]\<rparr>"

subsection \<open>Paths and the file system\<close>

text \<open>
  The shapefile cell calls \<^verbatim>\<open>os.path.dirname\<close>, \<^verbatim>\<open>os.path.isdir\<close> and \<^verbatim>\<open>os.makedirs\<close>. A file
  system maps a path, as it is written, to a directory or to a file with its content;
  there are no links, and \<^verbatim>\<open>.\<close> and \<^verbatim>\<open>..\<close> are names like any other. The functions follow
  \<^verbatim>\<open>posixpath.split\<close> and \<^verbatim>\<open>os.makedirs\<close> (with \<^verbatim>\<open>exist_ok=False\<close>) of the Python library:
  \<^verbatim>\<open>
  def split(p):
      i = p.rfind('/') + 1
      head, tail = p[:i], p[i:]
      if head and head != '/'*len(head):
          head = head.rstrip('/')
      return head, tail

  def makedirs(name):
      head, tail = path.split(name)
      if not tail:
          head, tail = path.split(head)
      if head and tail and not path.exists(head):
          try:
              makedirs(head)
          except FileExistsError:
              pass
          if tail == '.':
              return
      mkdir(name)
  \<close>
  A function on the file system returns the file system it leaves and the exception it
  raised, if any.
\<close>

type_synonym path = string

datatype 'c node = Dir | File 'c

type_synonym 'c filesystem = "path \<Rightarrow> 'c node option"

definition path_exists :: "'c filesystem \<Rightarrow> path \<Rightarrow> bool" where
  "path_exists f p = (f p \<noteq> None)"

definition isdir :: "'c filesystem \<Rightarrow> path \<Rightarrow> bool" where
  "isdir f p = (f p = Some Dir)"

definition sep :: char where
  "sep = CHR ''/''"

definition path_split :: "path \<Rightarrow> path \<times> path" where
  "path_split p =
     (let head = rev (dropWhile (\<lambda>c. c \<noteq> sep) (rev p));
          tail = rev (takeWhile (\<lambda>c. c \<noteq> sep) (rev p))
      in (if head \<noteq> [] \<and> head \<noteq> replicate (length head) sep
          then rev (dropWhile (\<lambda>c. c = sep) (rev head)) else head,
          tail))"

definition dirname :: "path \<Rightarrow> path" where
  "dirname p = fst (path_split p)"

text \<open>
  \<^verbatim>\<open>os.mkdir\<close> makes one directory: the path must not exist, and its parent, when the path
  names one, must be a directory.
\<close>

definition mkdir :: "'c filesystem \<Rightarrow> path \<Rightarrow> 'c filesystem \<times> py_error option" where
  "mkdir f p =
     (if path_exists f p then (f, Some FileExistsError)
      else if dirname p = [] \<or> isdir f (dirname p) then (f(p \<mapsto> Dir), None)
      else if path_exists f (dirname p) then (f, Some NotADirectoryError)
      else (f, Some FileNotFoundError))"

text \<open>The first three lines of \<^verbatim>\<open>makedirs\<close>: the head and the tail it works with.\<close>

definition split2 :: "path \<Rightarrow> path \<times> path" where
  "split2 name =
     (case path_split name of (head, tail) \<Rightarrow>
        if tail = [] then path_split head else (head, tail))"

lemma length_path_split: "length (fst (path_split p)) + length (snd (path_split p)) \<le> length p"
proof -
  let ?h = "rev (dropWhile (\<lambda>c. c \<noteq> sep) (rev p))"
  let ?t = "rev (takeWhile (\<lambda>c. c \<noteq> sep) (rev p))"
  have "length (takeWhile (\<lambda>c. c \<noteq> sep) (rev p)) + length (dropWhile (\<lambda>c. c \<noteq> sep) (rev p))
          = length (rev p)"
    by (metis length_append takeWhile_dropWhile_id)
  then have "length ?h + length ?t = length p"
    by simp
  moreover have "length (rev (dropWhile (\<lambda>c. c = sep) (rev ?h))) \<le> length ?h"
    using length_dropWhile_le [of "\<lambda>c. c = sep" "rev ?h"] by simp
  ultimately show ?thesis
    by (simp add: path_split_def Let_def)
qed

lemma length_split2: "length (fst (split2 p)) + length (snd (split2 p)) \<le> length p"
proof (cases "snd (path_split p) = []")
  case True
  then have "split2 p = path_split (fst (path_split p))"
    by (cases "path_split p") (simp add: split2_def)
  with length_path_split [of "fst (path_split p)"] length_path_split [of p]
  show ?thesis by simp
next
  case False
  then have "split2 p = path_split p"
    by (cases "path_split p") (simp add: split2_def)
  with length_path_split [of p] show ?thesis by simp
qed

text \<open>
  The recursive call is on a shorter path, since the tail is not empty. An exception of
  the recursive call other than FileExistsError is passed on.
\<close>

function makedirs :: "'c filesystem \<Rightarrow> path \<Rightarrow> 'c filesystem \<times> py_error option" where
  "makedirs f name =
     (if fst (split2 name) \<noteq> [] \<and> snd (split2 name) \<noteq> [] \<and> \<not> path_exists f (fst (split2 name))
      then
        (case makedirs f (fst (split2 name)) of (f1, err) \<Rightarrow>
           if err \<noteq> None \<and> err \<noteq> Some FileExistsError then (f1, err)
           else if snd (split2 name) = ''.'' then (f1, None)
           else mkdir f1 name)
      else mkdir f name)"
  by pat_completeness auto
termination
proof (relation "measure (\<lambda>(f, name). length name)")
  show "wf (measure (\<lambda>(f :: 'c filesystem, name). length name))" by simp
next
  fix f :: "'c filesystem" and name :: path
  assume "fst (split2 name) \<noteq> [] \<and> snd (split2 name) \<noteq> [] \<and> \<not> path_exists f (fst (split2 name))"
  then have "0 < length (snd (split2 name))" by simp
  with length_split2 [of name] have "length (fst (split2 name)) < length name" by linarith
  then show "((f, fst (split2 name)), (f, name)) \<in> measure (\<lambda>(f, name). length name)" by simp
qed

declare makedirs.simps [simp del]

subsection \<open>Geometry wrappers, streams and the notebook state\<close>

text \<open>
  The notebook creates geometry wrappers (\<^verbatim>\<open>gv.Points\<close>, \<^verbatim>\<open>gv.Polygons\<close>, \<^verbatim>\<open>gv.Path\<close>) and
  stream objects, and binds them to variables. Both kinds of objects live in a store: a
  list, in which the position of an object is its identity, so that two streams with the
  same source are told apart from two streams with equal sources. A variable holds a
  position. What a stream mirrors from the canvas (its \<^verbatim>\<open>.data\<close>) is kept by the toolkit,
  not by the notebook's code: it is a separate component, \<open>mirror\<close>, which no
  constructor call of the notebook writes.
\<close>

datatype stream_kind = PointDraw | PolyEdit | BoxEdit | PolyDraw | FreehandDraw

datatype geom_kind = Points | Polygons | Path

datatype 'm item =
    Coords "real ndarray"
  | Bounds "real \<times> real \<times> real \<times> real"
  | Columns "(string \<times> real list) list"
  | Mask 'm

record 'm geometry =
  gkind :: geom_kind
  items :: "'m item list"

record stream =
  kind :: stream_kind
  source :: nat
  num_objects :: "nat option"
  show_vertices :: bool

text \<open>
  The data of a stream is a dictionary from column names to columns, or \<^verbatim>\<open>None\<close>. In a
  condition it counts as true when it is a dictionary that is not empty.
\<close>

type_synonym 'v cds = "(string \<times> 'v) list"

definition truthy :: "'v cds option \<Rightarrow> bool" where
  "truthy d = (case d of None \<Rightarrow> False | Some c \<Rightarrow> c \<noteq> [])"

text \<open>
  The variable \<^verbatim>\<open>mask_shape\<close> holds a coordinate array after the polygon editing cell
  (the result of \<^verbatim>\<open>gv.util.geom_to_array\<close>) and a \<^verbatim>\<open>gv.Shape\<close> element with its display
  options after the shapefile has been written and read back. The method \<^verbatim>\<open>.opts()\<close>
  without arguments clears the options of an element; an array has no such method.
\<close>

datatype 'm pyobj = NdArray 'm | ShapeElement 'm "string list"

definition opts :: "'m pyobj \<Rightarrow> py_error + 'm pyobj" where
  "opts v = (case v of NdArray a \<Rightarrow> Inl AttributeError
                     | ShapeElement g os \<Rightarrow> Inr (ShapeElement g []))"


text \<open>What a cell shows: the calls of \<^verbatim>\<open>display\<close> and \<^verbatim>\<open>print\<close>, and the value of its last expression.\<close>

datatype ('v, 'e, 'm) shown =
    Display_dframe 'e
  | Print_bboxes "(real \<times> real \<times> real \<times> real) list"
  | Out_element_data 'e
  | Out_geom 'e
  | Out_data "'v cds option"
  | Out_element 'e
  | Out_mask_shape "'m pyobj"
  | Out_plot "nat list"

record ('v, 'e, 'm, 'c) notebook =
  geoms :: "'m geometry list"
  streams :: "stream list"
  mirror :: "nat \<Rightarrow> 'v cds option"
  gvar :: "string \<Rightarrow> nat option"
  svar :: "string \<Rightarrow> nat option"
  shapefile :: "path option"
  sample_poly :: "(string \<times> real list) list option"
  mask_shape :: "'m pyobj option"
  outputs :: "('v, 'e, 'm) shown list"
  fs :: "'c filesystem"

text \<open>
  The operations of the libraries that the cells call are parameters: what an element of
  a stream is (\<^verbatim>\<open>stream.element\<close>, computed from the stream, its source and its data), its
  truth value, \<^verbatim>\<open>element.split()\<close>, \<^verbatim>\<open>np.random.rand\<close>, \<^verbatim>\<open>gv.Shape.from_shapefile\<close>,
  \<^verbatim>\<open>gv.util.geom_to_array\<close> (applied to the data of the first shape), and
  \<^verbatim>\<open>earthsim.io.save_shapefile\<close>, which takes the column data, the path to write, the path
  of the template and the file system, and returns the new file system.
\<close>

record ('v, 'e, 'm, 'c) library =
  rand :: "nat \<Rightarrow> nat \<Rightarrow> real ndarray"
  element :: "stream \<Rightarrow> 'm geometry \<Rightarrow> 'v cds option \<Rightarrow> 'e"
  truth :: "'e \<Rightarrow> bool"
  split_element :: "'e \<Rightarrow> real polygon list"
  from_shapefile :: "'c filesystem \<Rightarrow> path \<Rightarrow> py_error + 'm"
  geom_to_array :: "'m \<Rightarrow> py_error + 'm"
  save_shapefile :: "'v cds \<Rightarrow> path \<Rightarrow> path \<Rightarrow> 'c filesystem \<Rightarrow> py_error + 'c filesystem"

text \<open>
  A cell returns the state it leaves and the exception that stopped it, if any. The
  bindings made before the exception stay.
\<close>

type_synonym 's result = "'s \<times> py_error option"

definition then_do :: "'s result \<Rightarrow> ('s \<Rightarrow> 's result) \<Rightarrow> 's result" where
  "then_do r f = (case r of (st, None) \<Rightarrow> f st | (st, Some e) \<Rightarrow> (st, Some e))"

fun run_cells :: "('s \<Rightarrow> 's result) list \<Rightarrow> 's \<Rightarrow> 's result" where
  "run_cells [] st = (st, None)"
| "run_cells (c # cs) st = then_do (c st) (run_cells cs)"

text \<open>\<^verbatim>\<open>x = gv.Points(...)\<close> and the like: a new wrapper, bound to \<open>x\<close>.\<close>

definition new_geom ::
  "string \<Rightarrow> 'm geometry \<Rightarrow> ('v, 'e, 'm, 'c) notebook \<Rightarrow> ('v, 'e, 'm, 'c) notebook" where
  "new_geom x g st =
     st\<lparr>geoms := geoms st @ [g], gvar := (gvar st)(x \<mapsto> length (geoms st))\<rparr>"

text \<open>\<^verbatim>\<open>x = Kind(source=src, num_objects=n, show_vertices=sv)\<close>: a new stream on the wrapper that \<open>src\<close> names.\<close>

definition new_stream ::
  "string \<Rightarrow> stream_kind \<Rightarrow> string \<Rightarrow> nat option \<Rightarrow> bool \<Rightarrow>
   ('v, 'e, 'm, 'c) notebook \<Rightarrow> ('v, 'e, 'm, 'c) notebook result" where
  "new_stream x k src n sv st =
     (case gvar st src of
        None \<Rightarrow> (st, Some NameError)
      | Some g \<Rightarrow>
          (st\<lparr>streams := streams st @ [\<lparr>kind = k, source = g, num_objects = n, show_vertices = sv\<rparr>],
              svar := (svar st)(x \<mapsto> length (streams st))\<rparr>, None))"

text \<open>The last line of a configuration cell, \<^verbatim>\<open>tiles * a * b\<close>: the plot of the named wrappers.\<close>

fun lookup_all :: "(string \<Rightarrow> nat option) \<Rightarrow> string list \<Rightarrow> nat list option" where
  "lookup_all env [] = Some []"
| "lookup_all env (x # xs) =
     (case env x of None \<Rightarrow> None
      | Some i \<Rightarrow> (case lookup_all env xs of None \<Rightarrow> None | Some js \<Rightarrow> Some (i # js)))"

definition show_out ::
  "('v, 'e, 'm) shown \<Rightarrow> ('v, 'e, 'm, 'c) notebook \<Rightarrow> ('v, 'e, 'm, 'c) notebook" where
  "show_out v st = st\<lparr>outputs := outputs st @ [v]\<rparr>"

definition plot :: "string list \<Rightarrow> ('v, 'e, 'm, 'c) notebook \<Rightarrow> ('v, 'e, 'm, 'c) notebook result" where
  "plot xs st =
     (case lookup_all (gvar st) xs of
        None \<Rightarrow> (st, Some NameError)
      | Some js \<Rightarrow> (show_out (Out_plot js) st, None))"

text \<open>\<^verbatim>\<open>stream.element\<close> of the stream at position \<open>i\<close>.\<close>

definition stream_element :: "('v, 'e, 'm, 'c) library \<Rightarrow> ('v, 'e, 'm, 'c) notebook \<Rightarrow> nat \<Rightarrow> 'e" where
  "stream_element lib st i =
     element lib (streams st ! i) (geoms st ! source (streams st ! i)) (mirror st i)"

text \<open>\<^verbatim>\<open>a * k\<close> on an array.\<close>

definition times_scalar :: "real ndarray \<Rightarrow> real \<Rightarrow> real ndarray" where
  "times_scalar a k = a\<lparr>rows := map (map (\<lambda>x. x * k)) (rows a)\<rparr>"

subsection \<open>The cells that configure the streams\<close>

text \<open>
  \<^verbatim>\<open>
  points = gv.Points(np.random.rand(10, 2)*10)
  point_stream = PointDraw(source=points, num_objects=10)
  tiles * points
  \<close>
\<close>

definition cell_points ::
  "('v, 'e, 'm, 'c) library \<Rightarrow> ('v, 'e, 'm, 'c) notebook \<Rightarrow> ('v, 'e, 'm, 'c) notebook result" where
  "cell_points lib st =
     then_do (new_stream ''point_stream'' PointDraw ''points'' (Some 10) False
                (new_geom ''points''
                   \<lparr>gkind = Points, items = [Coords (times_scalar (rand lib 10 2) 10)]\<rparr> st))
       (plot [''points''])"

text \<open>
  \<^verbatim>\<open>
  sample_box = hv.Bounds((-90.99, 32.25, -90.85, 32.37))
  box_poly = gv.Polygons([sample_box])
  box_stream = BoxEdit(source=box_poly, num_objects=3)
  tiles * box_poly
  \<close>
\<close>

definition sample_box :: "real \<times> real \<times> real \<times> real" where
  "sample_box = (-90.99, 32.25, -90.85, 32.37)"

definition cell_box ::
  "('v, 'e, 'm, 'c) library \<Rightarrow> ('v, 'e, 'm, 'c) notebook \<Rightarrow> ('v, 'e, 'm, 'c) notebook result" where
  "cell_box lib st =
     then_do (new_stream ''box_stream'' BoxEdit ''box_poly'' (Some 3) False
                (new_geom ''box_poly'' \<lparr>gkind = Polygons, items = [Bounds sample_box]\<rparr> st))
       (plot [''box_poly''])"

text \<open>
  \<^verbatim>\<open>
  shapefile = '../data/vicksburg_watershed/watershed_boundary.shp'
  mask_shape = gv.util.geom_to_array(gv.Shape.from_shapefile(shapefile)[0].data)
  mask_poly = gv.Polygons([mask_shape])
  vertex_stream = PolyEdit(source=mask_poly)
  tiles * mask_poly
  \<close>
\<close>

definition watershed_shp :: path where
  "watershed_shp = ''../data/vicksburg_watershed/watershed_boundary.shp''"

definition cell_mask ::
  "('v, 'e, 'm, 'c) library \<Rightarrow> ('v, 'e, 'm, 'c) notebook \<Rightarrow> ('v, 'e, 'm, 'c) notebook result" where
  "cell_mask lib st =
     (let st1 = st\<lparr>shapefile := Some watershed_shp\<rparr> in
      case and_then (from_shapefile lib (fs st1) watershed_shp) (geom_to_array lib) of
        Inl e \<Rightarrow> (st1, Some e)
      | Inr a \<Rightarrow>
          then_do (new_stream ''vertex_stream'' PolyEdit ''mask_poly'' None False
                     (new_geom ''mask_poly'' \<lparr>gkind = Polygons, items = [Mask a]\<rparr>
                        (st1\<lparr>mask_shape := Some (NdArray a)\<rparr>)))
            (plot [''mask_poly'']))"

text \<open>
  \<^verbatim>\<open>
  path = gv.Path([[(0, 52), (-74, 43)]])
  freehand_stream = FreehandDraw(source=path, num_objects=3)
  tiles * path
  \<close>
\<close>

definition cell_freehand ::
  "('v, 'e, 'm, 'c) library \<Rightarrow> ('v, 'e, 'm, 'c) notebook \<Rightarrow> ('v, 'e, 'm, 'c) notebook result" where
  "cell_freehand lib st =
     then_do (new_stream ''freehand_stream'' FreehandDraw ''path'' (Some 3) False
                (new_geom ''path'' \<lparr>gkind = Path, items = [Coords sample_line]\<rparr> st))
       (plot [''path''])"

text \<open>
  \<^verbatim>\<open>
  sample_poly=dict(
      Longitude = [-90.86, -90.94, -91.0 , -90.92, -91.0 , -90.94],
      Latitude  = [ 32.33,  32.37,  32.34,  32.32,  32.27,  32.25])
  sample_path=dict(
      Longitude = [-90.99, -90.90, -90.90, -90.98],
      Latitude  = [ 32.35,  32.34,  32.32,  32.25])

  new_polys = gv.Polygons([sample_poly])
  new_paths = gv.Path([sample_path])
  poly_stream = PolyDraw(source=new_polys, show_vertices=True)
  path_stream = PolyDraw(source=new_paths, show_vertices=True)
  tiles * new_polys * new_paths
  \<close>
\<close>

definition sample_poly_dict :: "(string \<times> real list) list" where
  "sample_poly_dict =
     [(''Longitude'', [-90.86, -90.94, -91.0, -90.92, -91.0, -90.94]),
      (''Latitude'', [32.33, 32.37, 32.34, 32.32, 32.27, 32.25])]"

definition sample_path_dict :: "(string \<times> real list) list" where
  "sample_path_dict =
     [(''Longitude'', [-90.99, -90.90, -90.90, -90.98]),
      (''Latitude'', [32.35, 32.34, 32.32, 32.25])]"

definition cell_polydraw ::
  "('v, 'e, 'm, 'c) library \<Rightarrow> ('v, 'e, 'm, 'c) notebook \<Rightarrow> ('v, 'e, 'm, 'c) notebook result" where
  "cell_polydraw lib st =
     (let st1 = st\<lparr>sample_poly := Some sample_poly_dict\<rparr>;
          st2 = new_geom ''new_polys'' \<lparr>gkind = Polygons, items = [Columns sample_poly_dict]\<rparr> st1;
          st3 = new_geom ''new_paths'' \<lparr>gkind = Path, items = [Columns sample_path_dict]\<rparr> st2
      in then_do (new_stream ''poly_stream'' PolyDraw ''new_polys'' None True st3) (\<lambda>st4.
         then_do (new_stream ''path_stream'' PolyDraw ''new_paths'' None True st4)
           (plot [''new_polys'', ''new_paths''])))"

text \<open>
  \<^verbatim>\<open>
  new_polys = gv.Polygons([sample_poly])
  poly_stream   = PolyDraw(source=new_polys)
  vertex_stream = PolyEdit(source=new_polys)
  tiles * new_polys
  \<close>
  The first line makes a new wrapper and binds \<^verbatim>\<open>new_polys\<close> to it; both streams of this
  cell take that one wrapper as their source.
\<close>

definition cell_draw_edit ::
  "('v, 'e, 'm, 'c) library \<Rightarrow> ('v, 'e, 'm, 'c) notebook \<Rightarrow> ('v, 'e, 'm, 'c) notebook result" where
  "cell_draw_edit lib st =
     (case sample_poly st of
        None \<Rightarrow> (st, Some NameError)
      | Some d \<Rightarrow>
          then_do (new_stream ''poly_stream'' PolyDraw ''new_polys'' None False
                     (new_geom ''new_polys'' \<lparr>gkind = Polygons, items = [Columns d]\<rparr> st)) (\<lambda>st1.
          then_do (new_stream ''vertex_stream'' PolyEdit ''new_polys'' None False st1)
            (plot [''new_polys''])))"

definition config_cells ::
  "('v, 'e, 'm, 'c) library \<Rightarrow>
   (('v, 'e, 'm, 'c) notebook \<Rightarrow> ('v, 'e, 'm, 'c) notebook result) list" where
  "config_cells lib =
     [cell_points lib, cell_box lib, cell_mask lib, cell_freehand lib, cell_polydraw lib,
      cell_draw_edit lib]"

subsection \<open>The cells that read the streams\<close>

text \<open>
  \<^verbatim>\<open>
  if point_stream.data:
      display(point_stream.element.dframe())
  \<close>
\<close>

definition cell_points_read ::
  "('v, 'e, 'm, 'c) library \<Rightarrow> ('v, 'e, 'm, 'c) notebook \<Rightarrow> ('v, 'e, 'm, 'c) notebook result" where
  "cell_points_read lib st =
     (case svar st ''point_stream'' of
        None \<Rightarrow> (st, Some NameError)
      | Some i \<Rightarrow>
          if truthy (mirror st i)
          then (show_out (Display_dframe (stream_element lib st i)) st, None)
          else (st, None))"

text \<open>
  \<^verbatim>\<open>
  if box_stream.element:
      polygons = box_stream.element.split()
      bboxes = [bbox(p) for p in polygons]
      print(bboxes)
  \<close>
  The list comprehension stops at the first polygon on which \<^verbatim>\<open>bbox\<close> raises.
\<close>

fun bboxes :: "real polygon list \<Rightarrow> py_error + (real \<times> real \<times> real \<times> real) list" where
  "bboxes [] = Inr []"
| "bboxes (p # ps) =
     and_then (bbox p) (\<lambda>b. and_then (bboxes ps) (\<lambda>bs. Inr (b # bs)))"

definition cell_bbox ::
  "('v, 'e, 'm, 'c) library \<Rightarrow> ('v, 'e, 'm, 'c) notebook \<Rightarrow> ('v, 'e, 'm, 'c) notebook result" where
  "cell_bbox lib st =
     (case svar st ''box_stream'' of
        None \<Rightarrow> (st, Some NameError)
      | Some i \<Rightarrow>
          if truth lib (stream_element lib st i)
          then (case bboxes (split_element lib (stream_element lib st i)) of
                  Inl e \<Rightarrow> (st, Some e)
                | Inr bs \<Rightarrow> (show_out (Print_bboxes bs) st, None))
          else (st, None))"

text \<open>
  \<^verbatim>\<open>
  if vertex_stream.data:
      edited_shape_fname = '../data/vicksburg_watershed_edited/watershed_boundary.shp'
      dir_name = os.path.dirname(edited_shape_fname)
      if not os.path.isdir(dir_name): os.makedirs(dir_name)
      save_shapefile(vertex_stream.data, edited_shape_fname, shapefile)
      mask_shape = gv.Shape.from_shapefile(edited_shape_fname)
  mask_shape = mask_shape.opts() # Clear options to avoid adding edit tool
  mask_shape
  \<close>
  \<open>ensure_dir\<close> is the third and fourth line, \<open>save_and_load\<close> the conditional, and
  \<open>show_mask\<close> the two lines after it.
\<close>

definition edited_shape_fname :: path where
  "edited_shape_fname = ''../data/vicksburg_watershed_edited/watershed_boundary.shp''"

definition ensure_dir :: "'c filesystem \<Rightarrow> 'c filesystem result" where
  "ensure_dir f =
     (let dir_name = dirname edited_shape_fname
      in if \<not> isdir f dir_name then makedirs f dir_name else (f, None))"

definition save_and_load ::
  "('v, 'e, 'm, 'c) library \<Rightarrow> 'v cds \<Rightarrow> ('v, 'e, 'm, 'c) notebook \<Rightarrow> ('v, 'e, 'm, 'c) notebook result" where
  "save_and_load lib d st =
     (case ensure_dir (fs st) of
        (f1, Some e) \<Rightarrow> (st\<lparr>fs := f1\<rparr>, Some e)
      | (f1, None) \<Rightarrow>
          (case shapefile st of
             None \<Rightarrow> (st\<lparr>fs := f1\<rparr>, Some NameError)
           | Some template \<Rightarrow>
               (case save_shapefile lib d edited_shape_fname template f1 of
                  Inl e \<Rightarrow> (st\<lparr>fs := f1\<rparr>, Some e)
                | Inr f2 \<Rightarrow>
                    (case from_shapefile lib f2 edited_shape_fname of
                       Inl e \<Rightarrow> (st\<lparr>fs := f2\<rparr>, Some e)
                     | Inr g \<Rightarrow> (st\<lparr>fs := f2, mask_shape := Some (ShapeElement g [])\<rparr>, None)))))"

definition show_mask :: "('v, 'e, 'm, 'c) notebook \<Rightarrow> ('v, 'e, 'm, 'c) notebook result" where
  "show_mask st =
     (case mask_shape st of
        None \<Rightarrow> (st, Some NameError)
      | Some v \<Rightarrow>
          (case opts v of
             Inl e \<Rightarrow> (st, Some e)
           | Inr v' \<Rightarrow> (show_out (Out_mask_shape v') (st\<lparr>mask_shape := Some v'\<rparr>), None)))"

definition cell_save ::
  "('v, 'e, 'm, 'c) library \<Rightarrow> ('v, 'e, 'm, 'c) notebook \<Rightarrow> ('v, 'e, 'm, 'c) notebook result" where
  "cell_save lib st =
     (case svar st ''vertex_stream'' of
        None \<Rightarrow> (st, Some NameError)
      | Some i \<Rightarrow>
          (case mirror st i of
             None \<Rightarrow> show_mask st
           | Some d \<Rightarrow>
               if truthy (Some d) then then_do (save_and_load lib d st) show_mask
               else show_mask st))"

text \<open>
  The cells that consist of one expression, whose value is shown:
  \<^verbatim>\<open>freehand_stream.element.data\<close>, \<^verbatim>\<open>path_stream.element.data\<close>,
  \<^verbatim>\<open>poly_stream.element.geom()\<close>, \<^verbatim>\<open>path_stream.element.geom()\<close>, \<^verbatim>\<open>poly_stream.data\<close> and
  \<^verbatim>\<open>poly_stream.element\<close>.
\<close>

definition cell_show ::
  "string \<Rightarrow> (nat \<Rightarrow> ('v, 'e, 'm, 'c) notebook \<Rightarrow> ('v, 'e, 'm) shown) \<Rightarrow>
   ('v, 'e, 'm, 'c) notebook \<Rightarrow> ('v, 'e, 'm, 'c) notebook result" where
  "cell_show x rd st =
     (case svar st x of
        None \<Rightarrow> (st, Some NameError)
      | Some i \<Rightarrow> (show_out (rd i st) st, None))"

definition cell_freehand_data ::
  "('v, 'e, 'm, 'c) library \<Rightarrow> ('v, 'e, 'm, 'c) notebook \<Rightarrow> ('v, 'e, 'm, 'c) notebook result" where
  "cell_freehand_data lib =
     cell_show ''freehand_stream'' (\<lambda>i st. Out_element_data (stream_element lib st i))"

definition cell_path_data ::
  "('v, 'e, 'm, 'c) library \<Rightarrow> ('v, 'e, 'm, 'c) notebook \<Rightarrow> ('v, 'e, 'm, 'c) notebook result" where
  "cell_path_data lib =
     cell_show ''path_stream'' (\<lambda>i st. Out_element_data (stream_element lib st i))"

definition cell_poly_geom ::
  "('v, 'e, 'm, 'c) library \<Rightarrow> ('v, 'e, 'm, 'c) notebook \<Rightarrow> ('v, 'e, 'm, 'c) notebook result" where
  "cell_poly_geom lib =
     cell_show ''poly_stream'' (\<lambda>i st. Out_geom (stream_element lib st i))"

definition cell_path_geom ::
  "('v, 'e, 'm, 'c) library \<Rightarrow> ('v, 'e, 'm, 'c) notebook \<Rightarrow> ('v, 'e, 'm, 'c) notebook result" where
  "cell_path_geom lib =
     cell_show ''path_stream'' (\<lambda>i st. Out_geom (stream_element lib st i))"

definition cell_poly_data ::
  "('v, 'e, 'm, 'c) library \<Rightarrow> ('v, 'e, 'm, 'c) notebook \<Rightarrow> ('v, 'e, 'm, 'c) notebook result" where
  "cell_poly_data lib = cell_show ''poly_stream'' (\<lambda>i st. Out_data (mirror st i))"

definition cell_poly_element ::
  "('v, 'e, 'm, 'c) library \<Rightarrow> ('v, 'e, 'm, 'c) notebook \<Rightarrow> ('v, 'e, 'm, 'c) notebook result" where
  "cell_poly_element lib =
     cell_show ''poly_stream'' (\<lambda>i st. Out_element (stream_element lib st i))"

definition read_cells ::
  "('v, 'e, 'm, 'c) library \<Rightarrow>
   (('v, 'e, 'm, 'c) notebook \<Rightarrow> ('v, 'e, 'm, 'c) notebook result) list" where
  "read_cells lib =
     [cell_points_read lib, cell_bbox lib, cell_save lib, cell_freehand_data lib,
      cell_path_data lib, cell_poly_geom lib, cell_path_geom lib, cell_poly_data lib,
      cell_poly_element lib]"

subsection \<open>A library and a file system to run the cells on\<close>

text \<open>
  An instance of the library parameters, for running the cells on concrete values: an
  element is a list of polygons, a file holds a coordinate array, a shapefile is read by
  returning what the file holds, and it is written, into an existing directory only, as
  the array whose rows are the columns of the data.
\<close>

definition demo_lib :: "(real list, real polygon list, real ndarray, real ndarray) library" where
  "demo_lib =
     \<lparr>rand = (\<lambda>n m. \<lparr>ncols = m, rows = replicate n (replicate m (1 / 2))\<rparr>),
      element = (\<lambda>s g d. if truthy d then [sample_ring] else []),
      truth = (\<lambda>e. e \<noteq> []),
      split_element = (\<lambda>e. e),
      from_shapefile = (\<lambda>f p. case f p of Some (File c) \<Rightarrow> Inr c | _ \<Rightarrow> Inl IOError),
      geom_to_array = Inr,
      save_shapefile = (\<lambda>d p t f.
        if isdir f (dirname p) then Inr (f(p \<mapsto> File \<lparr>ncols = 2, rows = map snd d\<rparr>))
        else Inl IOError)\<rparr>"

definition demo_fs :: "real ndarray filesystem" where
  "demo_fs =
     [''..'' \<mapsto> Dir,
      ''../data'' \<mapsto> Dir,
      ''../data/vicksburg_watershed'' \<mapsto> Dir,
      watershed_shp \<mapsto> File sample_quad]"

definition fresh :: "(real list, real polygon list, real ndarray, real ndarray) notebook" where
  "fresh =
     \<lparr>geoms = [], streams = [], mirror = (\<lambda>i. None), gvar = (\<lambda>x. None), svar = (\<lambda>x. None),
      shapefile = None, sample_poly = None, mask_shape = None, outputs = [], fs = demo_fs\<rparr>"

text \<open>The state after the configuration cells, before and after an edit of the last polygon.\<close>

definition configured :: "(real list, real polygon list, real ndarray, real ndarray) notebook" where
  "configured = fst (run_cells (config_cells demo_lib) fresh)"

definition edited :: "(real list, real polygon list, real ndarray, real ndarray) notebook" where
  "edited =
     configured\<lparr>mirror := (\<lambda>i. if i = 7 then Some [(''xs'', [0, 1, 1]), (''ys'', [0, 0, 1])] else None)\<rparr>"

text \<open>The kinds of stream in use, and the streams attached to a wrapper.\<close>

definition kinds_used :: "('v, 'e, 'm, 'c) notebook \<Rightarrow> stream_kind list" where
  "kinds_used st = remdups (map kind (streams st))"

definition adapters_on :: "('v, 'e, 'm, 'c) notebook \<Rightarrow> nat \<Rightarrow> stream list" where
  "adapters_on st g = filter (\<lambda>s. source s = g) (streams st)"








section \<open>Theorems\<close>

subsection \<open>Facts about \<^verbatim>\<open>bbox\<close>\<close>

lemma rows_T_two:
  "ncols a = 2 \<Longrightarrow> rows (T a) = [map (\<lambda>r. r ! 0) (rows a), map (\<lambda>r. r ! 1) (rows a)]"
proof -
  assume "ncols a = 2"
  moreover have "[0..<2] = [0, Suc 0]" by (simp add: upt_rec)
  ultimately show ?thesis by (simp add: T_def)
qed

lemma unpack2_T:
  "unpack2 (T a) =
     (if ncols a = 2 then Inr (map (\<lambda>r. r ! 0) (rows a), map (\<lambda>r. r ! 1) (rows a))
      else Inl ValueError)"
proof (cases "ncols a = 2")
  case True
  then show ?thesis by (simp add: unpack2_def rows_T_two)
next
  case False
  have len: "length (rows (T a)) = ncols a" by (simp add: T_def)
  with False have "length (rows (T a)) \<noteq> 2" by simp
  then have "unpack2 (T a) = Inl ValueError"
    by (auto simp: unpack2_def split: list.splits)
  with False show ?thesis by simp
qed

lemma bbox_eq:
  "bbox p =
     (if ncols p \<noteq> 2 then Inl ValueError
      else if length (rows p) < 3 then Inl IndexError
      else Inr (rows p ! 0 ! 0, rows p ! 0 ! 1, rows p ! 2 ! 0, rows p ! 2 ! 1))"
  by (auto simp: bbox_def unpack2_T and_then_def getitem_def)

lemma is_rectangle_rows:
  assumes "is_rectangle p"
  shows "\<exists>a b e f. ncols p = 2 \<and>
           (rows p = [[a, b], [a, f], [e, f], [e, b]]
            \<or> rows p = [[a, b], [e, b], [e, f], [a, f]]
            \<or> rows p = [[a, b], [a, f], [e, f], [e, b], [a, b]]
            \<or> rows p = [[a, b], [e, b], [e, f], [a, f], [a, b]])"
  using assms by (auto simp: is_rectangle_def along_perimeter_def split: list.splits)

lemma bbox_of_rows:
  assumes "ncols p = 2" and "rows p = [a, b] # r1 # [e, f] # rs"
  shows "bbox p = Inr (a, b, e, f)"
  using assms by (simp add: bbox_eq)

text \<open>
  Claim C1. For a four-vertex axis-aligned rectangle polygon as the BoxEdit stream returns
  it (its coordinate array is the closed ring of the four vertices; the four vertices
  alone are covered too), \<^verbatim>\<open>bbox\<close> returns the tuple \<open>(xs[0], ys[0], xs[2], ys[2])\<close> of the
  coordinates of the first and the third vertex. The two pairs are diagonally opposite
  corners: the four corners of the box that the tuple spans are exactly the vertices of
  the rectangle, and every vertex lies inside the box.
\<close>

theorem bbox_rectangle:
  fixes p :: "('a::linorder) polygon"
  assumes "is_rectangle p"
  shows "\<exists>t. bbox p = Inr t
           \<and> t = (fst (vertices p ! 0), snd (vertices p ! 0),
                  fst (vertices p ! 2), snd (vertices p ! 2))
           \<and> set (vertices p) = set (corners t)
           \<and> list_all (inside t) (vertices p)"
proof -
  from is_rectangle_rows [OF assms] obtain a b e f where
    c: "ncols p = 2" and
    r: "rows p = [[a, b], [a, f], [e, f], [e, b]]
        \<or> rows p = [[a, b], [e, b], [e, f], [a, f]]
        \<or> rows p = [[a, b], [a, f], [e, f], [e, b], [a, b]]
        \<or> rows p = [[a, b], [e, b], [e, f], [a, f], [a, b]]"
    by blast
  from r c have b: "bbox p = Inr (a, b, e, f)"
    by (auto intro: bbox_of_rows)
  from r consider
      (open_v) "rows p = [[a, b], [a, f], [e, f], [e, b]]"
    | (open_h) "rows p = [[a, b], [e, b], [e, f], [a, f]]"
    | (ring_v) "rows p = [[a, b], [a, f], [e, f], [e, b], [a, b]]"
    | (ring_h) "rows p = [[a, b], [e, b], [e, f], [a, f], [a, b]]"
    by blast
  then show ?thesis
  proof cases
    case open_v
    with b show ?thesis by (auto simp: vertices_def corners_def inside_def)
  next
    case open_h
    with b show ?thesis by (auto simp: vertices_def corners_def inside_def)
  next
    case ring_v
    with b show ?thesis by (auto simp: vertices_def corners_def inside_def)
  next
    case ring_h
    with b show ?thesis by (auto simp: vertices_def corners_def inside_def)
  qed
qed

theorem bbox_rectangle_witness:
  "is_rectangle sample_ring \<and> length (rows sample_ring) = 5
   \<and> bbox sample_ring = Inr (-90.99, 32.25, -90.85, 32.37)
   \<and> set (vertices sample_ring) = set (corners (-90.99, 32.25, -90.85, 32.37))
   \<and> is_rectangle sample_rect \<and> length (rows sample_rect) = 4
   \<and> bbox sample_rect = Inr (-90.99, 32.25, -90.85, 32.37)"
proof -
  have h: "is_rectangle sample_ring"
    by (simp add: is_rectangle_def along_perimeter_def sample_ring_def)
  from bbox_rectangle [OF h] obtain t where
    b: "bbox sample_ring = Inr t" and
    t: "t = (fst (vertices sample_ring ! 0), snd (vertices sample_ring ! 0),
             fst (vertices sample_ring ! 2), snd (vertices sample_ring ! 2))" and
    s: "set (vertices sample_ring) = set (corners t)"
    by blast
  have e: "t = (-90.99, 32.25, -90.85, 32.37)"
    unfolding t by (simp add: vertices_def sample_ring_def)
  have h': "is_rectangle sample_rect"
    by (simp add: is_rectangle_def along_perimeter_def sample_rect_def)
  from bbox_rectangle [OF h'] obtain t' where
    b': "bbox sample_rect = Inr t'" and
    t': "t' = (fst (vertices sample_rect ! 0), snd (vertices sample_rect ! 0),
              fst (vertices sample_rect ! 2), snd (vertices sample_rect ! 2))"
    by blast
  have e': "t' = (-90.99, 32.25, -90.85, 32.37)"
    unfolding t' by (simp add: vertices_def sample_rect_def)
  have l: "length (rows sample_ring) = 5" "length (rows sample_rect) = 4"
    by (simp_all add: sample_ring_def sample_rect_def)
  from h b s e h' b' e' l show ?thesis by simp
qed

text \<open>
  The statement "\<^verbatim>\<open>bbox\<close> succeeds on every polygon, whatever its number of vertices"
  fails on the two-vertex line of the freehand cell: \<^verbatim>\<open>xs[2]\<close> is out of range.
\<close>

theorem bbox_total_counterexample: "bbox sample_line = Inl IndexError"
  by (simp add: bbox_eq sample_line_def)

text \<open>
  Claim C3, amended. \<^verbatim>\<open>bbox\<close> succeeds exactly on the polygons whose coordinate array has
  two columns and at least three vertices. It has no guard: on a polygon with fewer than
  three vertices the indexing raises IndexError.
\<close>

theorem bbox_succeeds_iff:
  "((\<exists>t. bbox p = Inr t) \<longleftrightarrow> ncols p = 2 \<and> 3 \<le> length (rows p))
   \<and> (ncols p = 2 \<and> length (rows p) < 3 \<longrightarrow> bbox p = Inl IndexError)"
  by (auto simp: bbox_eq)

theorem bbox_succeeds_iff_witness:
  "(\<exists>t. bbox sample_rect = Inr t)
   \<and> ncols sample_line = 2 \<and> length (rows sample_line) < 3
   \<and> \<not> (\<exists>t. bbox sample_line = Inr t) \<and> bbox sample_line = Inl IndexError"
proof -
  have a: "ncols sample_rect = 2 \<and> 3 \<le> length (rows sample_rect)"
    by (simp add: sample_rect_def)
  have b: "ncols sample_line = 2 \<and> length (rows sample_line) < 3"
    by (simp add: sample_line_def)
  from bbox_succeeds_iff [of sample_rect] a have r1: "\<exists>t. bbox sample_rect = Inr t"
    by blast
  from bbox_succeeds_iff [of sample_line] b have r2: "bbox sample_line = Inl IndexError"
    by blast
  then have "\<not> (\<exists>t. bbox sample_line = Inr t)" by simp
  with b r1 r2 show ?thesis by blast
qed

text \<open>
  Claim C10. The result of \<^verbatim>\<open>bbox\<close> depends only on the first and the third vertex: two
  polygons (arrays with the same number of columns) that agree on vertex 0 and on
  vertex 2 give the same result, whatever their other vertices are. \<^verbatim>\<open>bbox\<close> is a
  function of its argument, so it is deterministic.
\<close>

theorem bbox_first_third:
  assumes "ncols p = ncols q" and "vertex p 0 = vertex q 0" and "vertex p 2 = vertex q 2"
  shows "bbox p = bbox q"
  using assms by (auto simp: bbox_eq vertex_def getitem_def split: if_splits)

theorem bbox_first_third_witness:
  "sample_rect \<noteq> sample_quad \<and> bbox sample_rect = bbox sample_quad"
proof -
  have "ncols sample_rect = ncols sample_quad"
    and "vertex sample_rect 0 = vertex sample_quad 0"
    and "vertex sample_rect 2 = vertex sample_quad 2"
    by (simp_all add: sample_rect_def sample_quad_def vertex_def getitem_def)
  then have "bbox sample_rect = bbox sample_quad" by (rule bbox_first_third)
  moreover have "sample_rect \<noteq> sample_quad" by (simp add: sample_rect_def sample_quad_def)
  ultimately show ?thesis by simp
qed

subsection \<open>Sequencing\<close>

lemma then_do_None:
  assumes "then_do r f = (st', None)"
  shows "\<exists>st1. r = (st1, None) \<and> f st1 = (st', None)"
  using assms by (cases r) (auto simp: then_do_def split: option.splits)

subsection \<open>What the configuration cells add to the store\<close>

lemma cell_points_store:
  assumes "cell_points lib st = (st', e)"
  shows "streams st' = streams st @
           [\<lparr>kind = PointDraw, source = length (geoms st), num_objects = Some 10,
             show_vertices = False\<rparr>]"
    and "length (geoms st') = Suc (length (geoms st))"
    and "sample_poly st' = sample_poly st"
  using assms
  by (auto simp: cell_points_def new_geom_def new_stream_def plot_def show_out_def then_do_def)

lemma cell_box_store:
  assumes "cell_box lib st = (st', e)"
  shows "streams st' = streams st @
           [\<lparr>kind = BoxEdit, source = length (geoms st), num_objects = Some 3,
             show_vertices = False\<rparr>]"
    and "length (geoms st') = Suc (length (geoms st))"
    and "sample_poly st' = sample_poly st"
  using assms
  by (auto simp: cell_box_def new_geom_def new_stream_def plot_def show_out_def then_do_def)

lemma cell_mask_store:
  assumes "cell_mask lib st = (st', None)"
  shows "streams st' = streams st @
           [\<lparr>kind = PolyEdit, source = length (geoms st), num_objects = None,
             show_vertices = False\<rparr>]"
    and "length (geoms st') = Suc (length (geoms st))"
    and "sample_poly st' = sample_poly st"
  using assms
  by (auto simp: cell_mask_def new_geom_def new_stream_def plot_def show_out_def then_do_def
                 Let_def split: sum.splits)

lemma cell_freehand_store:
  assumes "cell_freehand lib st = (st', e)"
  shows "streams st' = streams st @
           [\<lparr>kind = FreehandDraw, source = length (geoms st), num_objects = Some 3,
             show_vertices = False\<rparr>]"
    and "length (geoms st') = Suc (length (geoms st))"
    and "sample_poly st' = sample_poly st"
  using assms
  by (auto simp: cell_freehand_def new_geom_def new_stream_def plot_def show_out_def then_do_def)

lemma cell_polydraw_store:
  assumes "cell_polydraw lib st = (st', e)"
  shows "streams st' = streams st @
           [\<lparr>kind = PolyDraw, source = length (geoms st), num_objects = None,
             show_vertices = True\<rparr>,
            \<lparr>kind = PolyDraw, source = Suc (length (geoms st)), num_objects = None,
             show_vertices = True\<rparr>]"
    and "length (geoms st') = Suc (Suc (length (geoms st)))"
    and "sample_poly st' = Some sample_poly_dict"
  using assms
  by (auto simp: cell_polydraw_def new_geom_def new_stream_def plot_def show_out_def then_do_def
                 Let_def)

lemma cell_draw_edit_store:
  assumes "cell_draw_edit lib st = (st', None)"
  shows "streams st' = streams st @
           [\<lparr>kind = PolyDraw, source = length (geoms st), num_objects = None,
             show_vertices = False\<rparr>,
            \<lparr>kind = PolyEdit, source = length (geoms st), num_objects = None,
             show_vertices = False\<rparr>]"
    and "length (geoms st') = Suc (length (geoms st))"
  using assms
  by (auto simp: cell_draw_edit_def new_geom_def new_stream_def plot_def show_out_def then_do_def
           split: option.splits)

lemma config_cells_store:
  assumes "geoms st0 = []" and "streams st0 = []"
    and "run_cells (config_cells lib) st0 = (st, None)"
  shows "streams st =
           [\<lparr>kind = PointDraw, source = 0, num_objects = Some 10, show_vertices = False\<rparr>,
            \<lparr>kind = BoxEdit, source = 1, num_objects = Some 3, show_vertices = False\<rparr>,
            \<lparr>kind = PolyEdit, source = 2, num_objects = None, show_vertices = False\<rparr>,
            \<lparr>kind = FreehandDraw, source = 3, num_objects = Some 3, show_vertices = False\<rparr>,
            \<lparr>kind = PolyDraw, source = 4, num_objects = None, show_vertices = True\<rparr>,
            \<lparr>kind = PolyDraw, source = 5, num_objects = None, show_vertices = True\<rparr>,
            \<lparr>kind = PolyDraw, source = 6, num_objects = None, show_vertices = False\<rparr>,
            \<lparr>kind = PolyEdit, source = 6, num_objects = None, show_vertices = False\<rparr>]"
    and "length (geoms st) = 7"
proof -
  from assms(3) obtain s1 where c1: "cell_points lib st0 = (s1, None)"
    and r1: "run_cells [cell_box lib, cell_mask lib, cell_freehand lib, cell_polydraw lib,
                        cell_draw_edit lib] s1 = (st, None)"
    by (auto simp: config_cells_def dest: then_do_None)
  from r1 obtain s2 where c2: "cell_box lib s1 = (s2, None)"
    and r2: "run_cells [cell_mask lib, cell_freehand lib, cell_polydraw lib,
                        cell_draw_edit lib] s2 = (st, None)"
    by (auto dest: then_do_None)
  from r2 obtain s3 where c3: "cell_mask lib s2 = (s3, None)"
    and r3: "run_cells [cell_freehand lib, cell_polydraw lib, cell_draw_edit lib] s3 = (st, None)"
    by (auto dest: then_do_None)
  from r3 obtain s4 where c4: "cell_freehand lib s3 = (s4, None)"
    and r4: "run_cells [cell_polydraw lib, cell_draw_edit lib] s4 = (st, None)"
    by (auto dest: then_do_None)
  from r4 obtain s5 where c5: "cell_polydraw lib s4 = (s5, None)"
    and r5: "run_cells [cell_draw_edit lib] s5 = (st, None)"
    by (auto dest: then_do_None)
  from r5 have c6: "cell_draw_edit lib s5 = (st, None)"
    by (auto dest: then_do_None)
  note s = cell_points_store [OF c1] cell_box_store [OF c2] cell_mask_store [OF c3]
    cell_freehand_store [OF c4] cell_polydraw_store [OF c5] cell_draw_edit_store [OF c6]
  from s assms(1,2) show "length (geoms st) = 7" by simp
  from s assms(1,2) show "streams st = 
           [\<lparr>kind = PointDraw, source = 0, num_objects = Some 10, show_vertices = False\<rparr>,
            \<lparr>kind = BoxEdit, source = 1, num_objects = Some 3, show_vertices = False\<rparr>,
            \<lparr>kind = PolyEdit, source = 2, num_objects = None, show_vertices = False\<rparr>,
            \<lparr>kind = FreehandDraw, source = 3, num_objects = Some 3, show_vertices = False\<rparr>,
            \<lparr>kind = PolyDraw, source = 4, num_objects = None, show_vertices = True\<rparr>,
            \<lparr>kind = PolyDraw, source = 5, num_objects = None, show_vertices = True\<rparr>,
            \<lparr>kind = PolyDraw, source = 6, num_objects = None, show_vertices = False\<rparr>,
            \<lparr>kind = PolyEdit, source = 6, num_objects = None, show_vertices = False\<rparr>]"
    by simp
qed

lemma demo_config_runs: "run_cells (config_cells demo_lib) fresh = (configured, None)"
proof -
  have "snd (run_cells (config_cells demo_lib) fresh) = None" by code_simp
  then show ?thesis by (simp add: configured_def prod_eq_iff)
qed

text \<open>
  The notebook uses five kinds of stream, not four, and the wrapper of its last
  configuration cell is the source of two streams.
\<close>

theorem four_kinds_counterexample:
  "length (kinds_used configured) = 5 \<and> length (adapters_on configured 6) = 2"
  using config_cells_store(1) [OF _ _ demo_config_runs]
  by (simp add: fresh_def kinds_used_def adapters_on_def)

text \<open>
  Claim C5, amended. After the configuration cells have run in a fresh notebook, the
  streams are of five kinds (PointDraw, BoxEdit, FreehandDraw, PolyDraw, PolyEdit). Each
  stream is attached to one geometry wrapper, its source, which is one of the seven
  wrappers of the notebook. Each of the first six wrappers is the source of exactly one
  stream; the seventh, made by the cell that draws and edits a polygon, is the source of
  two: a PolyDraw and a PolyEdit stream.
\<close>

theorem stream_bindings:
  assumes "geoms st0 = []" and "streams st0 = []"
    and "run_cells (config_cells lib) st0 = (st, None)"
  shows "kinds_used st = [PointDraw, BoxEdit, FreehandDraw, PolyDraw, PolyEdit]
       \<and> list_all (\<lambda>s. source s < length (geoms st)) (streams st)
       \<and> map (\<lambda>g. length (adapters_on st g)) [0..<length (geoms st)] = [1, 1, 1, 1, 1, 1, 2]
       \<and> map kind (adapters_on st 6) = [PolyDraw, PolyEdit]"
proof -
  note s = config_cells_store [OF assms]
  have u: "[0..<7] = [0, 1, 2, 3, 4, 5, 6 :: nat]" by (simp add: upt_rec)
  from s show ?thesis
    by (simp add: kinds_used_def adapters_on_def u)
qed

theorem stream_bindings_witness:
  "geoms fresh = [] \<and> streams fresh = []
   \<and> run_cells (config_cells demo_lib) fresh = (configured, None)
   \<and> kinds_used configured = [PointDraw, BoxEdit, FreehandDraw, PolyDraw, PolyEdit]
   \<and> map (\<lambda>g. length (adapters_on configured g)) [0..<length (geoms configured)]
       = [1, 1, 1, 1, 1, 1, 2]"
proof -
  have g: "geoms fresh = []" and s: "streams fresh = []" by (simp_all add: fresh_def)
  from stream_bindings [OF g s demo_config_runs] g s demo_config_runs
  show ?thesis by simp
qed

text \<open>The limits that the notebook passes as \<^verbatim>\<open>num_objects\<close>: 10, 3 and 3.\<close>

lemma limits_configured:
  assumes "geoms st0 = []" and "streams st0 = []"
    and "run_cells (config_cells lib) st0 = (st, None)"
  shows "map (\<lambda>s. (kind s, num_objects s)) (filter (\<lambda>s. num_objects s \<noteq> None) (streams st))
         = [(PointDraw, Some 10), (BoxEdit, Some 3), (FreehandDraw, Some 3)]"
  using config_cells_store(1) [OF assms] by simp

subsection \<open>The cells that read leave the store as it is\<close>

lemma show_mask_store:
  "streams (fst (show_mask st)) = streams st \<and> mirror (fst (show_mask st)) = mirror st
   \<and> geoms (fst (show_mask st)) = geoms st \<and> gvar (fst (show_mask st)) = gvar st
   \<and> svar (fst (show_mask st)) = svar st"
  by (simp add: show_mask_def show_out_def split: option.splits sum.splits)

lemma save_and_load_store:
  "streams (fst (save_and_load lib d st)) = streams st
   \<and> mirror (fst (save_and_load lib d st)) = mirror st
   \<and> geoms (fst (save_and_load lib d st)) = geoms st
   \<and> gvar (fst (save_and_load lib d st)) = gvar st
   \<and> svar (fst (save_and_load lib d st)) = svar st"
  by (simp add: save_and_load_def split: option.splits sum.splits prod.splits)

lemma fst_then_do:
  "fst (then_do r f) = (case snd r of None \<Rightarrow> fst (f (fst r)) | Some e \<Rightarrow> fst r)"
  by (cases r) (simp add: then_do_def split: option.splits)

lemma cell_save_store:
  "streams (fst (cell_save lib st)) = streams st \<and> mirror (fst (cell_save lib st)) = mirror st
   \<and> geoms (fst (cell_save lib st)) = geoms st \<and> gvar (fst (cell_save lib st)) = gvar st
   \<and> svar (fst (cell_save lib st)) = svar st"
  by (simp add: cell_save_def fst_then_do show_mask_store save_and_load_store
           split: option.splits)

lemma cell_show_store:
  "streams (fst (cell_show x rd st)) = streams st \<and> mirror (fst (cell_show x rd st)) = mirror st
   \<and> geoms (fst (cell_show x rd st)) = geoms st \<and> gvar (fst (cell_show x rd st)) = gvar st
   \<and> svar (fst (cell_show x rd st)) = svar st"
  by (simp add: cell_show_def show_out_def split: option.splits)

lemma cell_points_read_store:
  "streams (fst (cell_points_read lib st)) = streams st
   \<and> mirror (fst (cell_points_read lib st)) = mirror st
   \<and> geoms (fst (cell_points_read lib st)) = geoms st
   \<and> gvar (fst (cell_points_read lib st)) = gvar st
   \<and> svar (fst (cell_points_read lib st)) = svar st"
  by (simp add: cell_points_read_def show_out_def split: option.splits)

lemma cell_bbox_store:
  "streams (fst (cell_bbox lib st)) = streams st \<and> mirror (fst (cell_bbox lib st)) = mirror st
   \<and> geoms (fst (cell_bbox lib st)) = geoms st \<and> gvar (fst (cell_bbox lib st)) = gvar st
   \<and> svar (fst (cell_bbox lib st)) = svar st"
  by (simp add: cell_bbox_def show_out_def split: option.splits sum.splits)

text \<open>
  Claim C6. Every cell that reads a stream after editing (the display of the point
  stream's dataframe, the bounding boxes of the box stream's element, the shapefile cell,
  and the cells that show \<^verbatim>\<open>.data\<close>, \<^verbatim>\<open>.element\<close>, \<^verbatim>\<open>.element.data\<close> or \<^verbatim>\<open>.element.geom()\<close>)
  leaves the streams, their mirrored data, the geometry wrappers and the variables bound
  to them unchanged, also when it stops with an exception.
\<close>

theorem read_cells_pure:
  assumes "c \<in> set (read_cells lib)"
  shows "streams (fst (c st)) = streams st \<and> mirror (fst (c st)) = mirror st
       \<and> geoms (fst (c st)) = geoms st \<and> gvar (fst (c st)) = gvar st
       \<and> svar (fst (c st)) = svar st"
proof -
  from assms consider
      "c = cell_points_read lib" | "c = cell_bbox lib" | "c = cell_save lib"
    | "c = cell_freehand_data lib" | "c = cell_path_data lib" | "c = cell_poly_geom lib"
    | "c = cell_path_geom lib" | "c = cell_poly_data lib" | "c = cell_poly_element lib"
    by (auto simp: read_cells_def)
  then show ?thesis
  proof cases
    case 1 then show ?thesis by (simp only: cell_points_read_store)
  next
    case 2 then show ?thesis by (simp only: cell_bbox_store)
  next
    case 3 then show ?thesis by (simp only: cell_save_store)
  next
    case 4 then show ?thesis by (simp only: cell_freehand_data_def cell_show_store)
  next
    case 5 then show ?thesis by (simp only: cell_path_data_def cell_show_store)
  next
    case 6 then show ?thesis by (simp only: cell_poly_geom_def cell_show_store)
  next
    case 7 then show ?thesis by (simp only: cell_path_geom_def cell_show_store)
  next
    case 8 then show ?thesis by (simp only: cell_poly_data_def cell_show_store)
  next
    case 9 then show ?thesis by (simp only: cell_poly_element_def cell_show_store)
  qed
qed

theorem read_cells_pure_witness:
  "cell_save demo_lib \<in> set (read_cells demo_lib)
   \<and> streams (fst (cell_save demo_lib edited)) = streams edited
   \<and> mirror (fst (cell_save demo_lib edited)) = mirror edited
   \<and> geoms (fst (cell_save demo_lib edited)) = geoms edited
   \<and> length (outputs (fst (cell_save demo_lib edited))) = Suc (length (outputs edited))"
proof -
  have m: "cell_save demo_lib \<in> set (read_cells demo_lib)" by (simp add: read_cells_def)
  have "length (outputs (fst (cell_save demo_lib edited))) = Suc (length (outputs edited))"
    by code_simp
  with read_cells_pure [OF m, of edited] m show ?thesis by simp
qed

subsection \<open>The guards of the reading cells\<close>










subsection \<open>The directory of the edited shapefile\<close>











end
